theory Spec2Isabelle
  imports Main "HOL-Library.Word"
begin

section \<open>The login page of switch.ai (src/app/login/page.tsx)\<close>

text \<open>
  The component \<open>LoginPage\<close> holds four pieces of state (\<open>email\<close>, \<open>password\<close>,
  \<open>isLoading\<close>, \<open>isGoogleLoading\<close>), two event handlers (\<open>handleSubmit\<close>,
  \<open>handleGoogleLogin\<close>) and the rendered form. The handlers are embedded as state
  transformers that also return the trace of the effects they perform on their
  collaborators (the toast sink, the auth context, the console, the form event), in the
  order in which the source performs them.
\<close>

subsection \<open>JavaScript strings and \<open>String.prototype.trim\<close>\<close>

text \<open>
  A JavaScript string is a sequence of UTF-16 code units. Literals of the source are
  ASCII and are written with \<open>lit\<close>.
\<close>

type_synonym jsstring = "16 word list"

definition lit :: "string \<Rightarrow> jsstring" where
  "lit s = map of_char s"

text \<open>
  The code units that \<open>trim\<close> strips (ECMAScript \<open>WhiteSpace\<close> and \<open>LineTerminator\<close>):
  TAB, LF, VT, FF, CR, SP, NBSP, U+1680, U+2000 to U+200A, LS, PS, U+202F, U+205F,
  U+3000 and the byte order mark U+FEFF. All of them lie in the basic plane, so the test
  is one on code units.
\<close>

definition StrWhiteSpaceChar :: "16 word \<Rightarrow> bool" where
  "StrWhiteSpaceChar c \<longleftrightarrow>
     c \<in> {0x0009, 0x000A, 0x000B, 0x000C, 0x000D, 0x0020, 0x00A0, 0x1680,
          0x2028, 0x2029, 0x202F, 0x205F, 0x3000, 0xFEFF}
     \<or> (0x2000 \<le> c \<and> c \<le> 0x200A)"

definition trim :: "jsstring \<Rightarrow> jsstring" where
  "trim s = rev (dropWhile StrWhiteSpaceChar (rev (dropWhile StrWhiteSpaceChar s)))"

text \<open>
  The spec's notion of a blank field, in its own words: empty or whitespace-only.
  The code never computes it; it tests \<open>!s.trim()\<close>.
\<close>

definition blank :: "jsstring \<Rightarrow> bool" where
  "blank s \<longleftrightarrow> list_all StrWhiteSpaceChar s"

subsection \<open>JavaScript values\<close>

text \<open>
  The value a rejected promise or a \<open>throw\<close> carries is untyped (\<open>error: unknown\<close>), and
  the operations of the language on an object can run code of the object and throw.
  An object is therefore modelled by what the operations that the handlers apply to it
  do. A slot of a property name holds
  \<^item> what \<open>k in o\<close> does: it answers, or it throws (the \<open>has\<close> trap of a proxy);
  \<^item> what the read \<open>o.k\<close> does: it yields a value, or it throws (a getter, or the
    \<open>get\<close> trap of a proxy).
  In both, \<open>Inl\<close> is the value thrown.
\<close>

datatype 'v slot = Slot "'v + bool" "'v + 'v"

text \<open>
  The primitive values and the objects. An object has three components: whether it is
  callable, what \<open>o instanceof Error\<close> does (it answers, or it throws: the
  \<open>getPrototypeOf\<close> trap of a proxy), and its slots. A name without a slot is a property
  the object does not have of its own. Numbers are the integers and \<open>NaN\<close>: the handlers
  only test a number for truthiness and pass it on.
\<close>

datatype jsval =
    JUndefined
  | JNull
  | JBoolean bool
  | JNumber int
  | JNaN
  | JBigInt int
  | JString jsstring
  | JSymbol
  | JObject bool "jsval + bool" "(jsstring \<times> jsval slot) list"

text \<open>An own data property, and an own accessor property whose getter throws.\<close>

definition data :: "jsval \<Rightarrow> jsval slot" where
  "data v = Slot (Inr True) (Inr v)"

definition throwing_getter :: "jsval \<Rightarrow> jsval slot" where
  "throwing_getter x = Slot (Inr True) (Inl x)"

fun ToBoolean :: "jsval \<Rightarrow> bool" where
  "ToBoolean JUndefined = False"
| "ToBoolean JNull = False"
| "ToBoolean (JBoolean b) = b"
| "ToBoolean (JNumber n) = (n \<noteq> 0)"
| "ToBoolean JNaN = False"
| "ToBoolean (JBigInt n) = (n \<noteq> 0)"
| "ToBoolean (JString s) = (s \<noteq> [])"
| "ToBoolean JSymbol = True"
| "ToBoolean (JObject c ie ps) = True"

fun js_typeof :: "jsval \<Rightarrow> jsstring" where
  "js_typeof JUndefined = lit ''undefined''"
| "js_typeof JNull = lit ''object''"
| "js_typeof (JBoolean b) = lit ''boolean''"
| "js_typeof (JNumber n) = lit ''number''"
| "js_typeof JNaN = lit ''number''"
| "js_typeof (JBigInt n) = lit ''bigint''"
| "js_typeof (JString s) = lit ''string''"
| "js_typeof JSymbol = lit ''symbol''"
| "js_typeof (JObject c ie ps) = (if c then lit ''function'' else lit ''object'')"

text \<open>\<open>v instanceof Error\<close>: false on a primitive value.\<close>

fun js_instanceof_Error :: "jsval \<Rightarrow> jsval + bool" where
  "js_instanceof_Error (JObject c ie ps) = ie"
| "js_instanceof_Error v = Inr False"

text \<open>
  The data properties an object inherits from \<open>Error.prototype\<close>; \<open>Object.prototype\<close>
  has data properties of none of the names the handlers read.
\<close>

definition Error_prototype :: "(jsstring \<times> jsval) list" where
  "Error_prototype = [(lit ''name'', JString (lit ''Error'')), (lit ''message'', JString [])]"

definition inherited :: "jsval + bool \<Rightarrow> jsstring \<Rightarrow> jsval option" where
  "inherited ie k = (if ie = Inr True then map_of Error_prototype k else None)"

text \<open>The \<open>TypeError\<close> of the language: a property read of \<open>undefined\<close> or \<open>null\<close>, and
  \<open>in\<close> with a right operand that is not an object, throw it.\<close>

definition TypeError :: jsval where
  "TypeError = JObject False (Inr True) [(lit ''name'', data (JString (lit ''TypeError'')))]"

text \<open>\<open>k in v\<close>\<close>

fun js_in :: "jsstring \<Rightarrow> jsval \<Rightarrow> jsval + bool" where
  "js_in k (JObject c ie ps) =
     (case map_of ps k of
        Some (Slot found got) \<Rightarrow> found
      | None \<Rightarrow> Inr (inherited ie k \<noteq> None))"
| "js_in k v = Inl TypeError"

text \<open>
  \<open>v.k\<close>: what the slot says, else an inherited property, else \<open>undefined\<close>; a primitive
  value has no property of the names read here.
\<close>

fun js_get :: "jsval \<Rightarrow> jsstring \<Rightarrow> jsval + jsval" where
  "js_get JUndefined k = Inl TypeError"
| "js_get JNull k = Inl TypeError"
| "js_get (JObject c ie ps) k =
     (case map_of ps k of
        Some (Slot found got) \<Rightarrow> got
      | None \<Rightarrow> (case inherited ie k of Some x \<Rightarrow> Inr x | None \<Rightarrow> Inr JUndefined))"
| "js_get v k = Inr JUndefined"

text \<open>\<open>v?.k\<close>: \<open>undefined\<close> when \<open>v\<close> is \<open>undefined\<close> or \<open>null\<close>, else \<open>v.k\<close>.\<close>

definition js_get_opt :: "jsval \<Rightarrow> jsstring \<Rightarrow> jsval + jsval" where
  "js_get_opt v k = (if v = JUndefined \<or> v = JNull then Inr JUndefined else js_get v k)"

subsection \<open>Component state, collaborators and effects\<close>

record page =
  email :: jsstring
  password :: jsstring
  isLoading :: bool
  isGoogleLoading :: bool

definition initial_page :: page where
  "initial_page = \<lparr>email = [], password = [], isLoading = False, isGoogleLoading = False\<rparr>"

text \<open>The argument of \<open>toast\<close>; \<open>variant\<close> is \<open>None\<close> where the source gives none.\<close>

record notification =
  title :: jsstring
  description :: jsval
  variant :: "jsstring option"

text \<open>
  What the promise of \<open>login(email, password)\<close> does: it is fulfilled, it is rejected
  with a value (a synchronous throw of \<open>login\<close> inside the \<open>try\<close> block reaches the same
  \<open>catch\<close>), or it never settles.
\<close>

datatype settlement = Fulfilled | Rejected jsval | Unsettled

text \<open>What the call \<open>loginWithGoogle()\<close>, which is not awaited, does: it returns or throws.\<close>

datatype invocation = Returned | Threw jsval

text \<open>The two members of \<open>useAuth()\<close> that the page uses; their code is outside this file.\<close>

record auth_context =
  login :: "jsstring \<Rightarrow> jsstring \<Rightarrow> settlement"
  loginWithGoogle :: invocation

datatype effect =
    PreventDefault
  | SetIsLoading bool
  | SetIsGoogleLoading bool
  | Toast notification
  | Login jsstring jsstring
  | LoginWithGoogle
  | ConsoleError "jsval list"

text \<open>
  How a piece of code ends: normally with a value, abruptly with a thrown value, or
  suspended at an \<open>await\<close> whose promise never settles.
\<close>

datatype 'a completion = Normal 'a | Throw jsval | Suspended

type_synonym 'a comp = "page \<Rightarrow> 'a completion \<times> page \<times> effect list"

definition ret :: "'a \<Rightarrow> 'a comp" where
  "ret a = (\<lambda>s. (Normal a, s, []))"

definition throw :: "jsval \<Rightarrow> 'a comp" where
  "throw v = (\<lambda>s. (Throw v, s, []))"

definition suspend :: "'a comp" where
  "suspend = (\<lambda>s. (Suspended, s, []))"

definition bind :: "'a comp \<Rightarrow> ('a \<Rightarrow> 'b comp) \<Rightarrow> 'b comp" where
  "bind m f = (\<lambda>s.
     case m s of
       (Normal a, s', es) \<Rightarrow> (case f a s' of (r, s'', es') \<Rightarrow> (r, s'', es @ es'))
     | (Throw v, s', es) \<Rightarrow> (Throw v, s', es)
     | (Suspended, s', es) \<Rightarrow> (Suspended, s', es))"

definition seq :: "unit comp \<Rightarrow> 'b comp \<Rightarrow> 'b comp" where
  "seq m n = bind m (\<lambda>_. n)"

definition lift :: "jsval + 'a \<Rightarrow> 'a comp" where
  "lift r = (case r of Inl v \<Rightarrow> throw v | Inr a \<Rightarrow> ret a)"

text \<open>\<open>try { m } catch (error) { h error }\<close>\<close>

definition try_catch :: "'a comp \<Rightarrow> (jsval \<Rightarrow> 'a comp) \<Rightarrow> 'a comp" where
  "try_catch m h = (\<lambda>s.
     case m s of
       (Throw v, s', es) \<Rightarrow> (case h v s' of (r, s'', es') \<Rightarrow> (r, s'', es @ es'))
     | other \<Rightarrow> other)"

text \<open>
  \<open>try { m } finally { f }\<close>: \<open>f\<close> runs when \<open>m\<close> has ended, normally or abruptly, and
  the completion of \<open>m\<close> stands unless \<open>f\<close> itself ends abruptly.
\<close>

definition try_finally :: "'a comp \<Rightarrow> unit comp \<Rightarrow> 'a comp" where
  "try_finally m f = (\<lambda>s.
     case m s of
       (Suspended, s', es) \<Rightarrow> (Suspended, s', es)
     | (r, s', es) \<Rightarrow>
         (case f s' of
            (Normal u, s'', es') \<Rightarrow> (r, s'', es @ es')
          | (Throw v, s'', es') \<Rightarrow> (Throw v, s'', es @ es')
          | (Suspended, s'', es') \<Rightarrow> (Suspended, s'', es @ es')))"

definition perform :: "effect \<Rightarrow> unit comp" where
  "perform e = (\<lambda>s. (Normal (), s, [e]))"

definition toast :: "notification \<Rightarrow> unit comp" where
  "toast n = perform (Toast n)"

definition setIsLoading :: "bool \<Rightarrow> unit comp" where
  "setIsLoading b = (\<lambda>s. (Normal (), s\<lparr>isLoading := b\<rparr>, [SetIsLoading b]))"

definition setIsGoogleLoading :: "bool \<Rightarrow> unit comp" where
  "setIsGoogleLoading b = (\<lambda>s. (Normal (), s\<lparr>isGoogleLoading := b\<rparr>, [SetIsGoogleLoading b]))"

text \<open>\<open>await login(e, p)\<close>\<close>

definition await_login :: "auth_context \<Rightarrow> jsstring \<Rightarrow> jsstring \<Rightarrow> unit comp" where
  "await_login auth e p =
     seq (perform (Login e p))
       (case login auth e p of
          Fulfilled \<Rightarrow> ret ()
        | Rejected v \<Rightarrow> throw v
        | Unsettled \<Rightarrow> suspend)"

text \<open>\<open>loginWithGoogle()\<close>\<close>

definition call_loginWithGoogle :: "auth_context \<Rightarrow> unit comp" where
  "call_loginWithGoogle auth =
     seq (perform LoginWithGoogle)
       (case loginWithGoogle auth of
          Returned \<Rightarrow> ret ()
        | Threw v \<Rightarrow> throw v)"

subsection \<open>\<open>handleSubmit\<close>\<close>

text \<open>
  Lines 54 to 61: the message that the \<open>catch\<close> block derives from the caught value.
  \<open>&&\<close> evaluates \<open>'response' in error\<close> only behind its two other operands, and
  \<open>error instanceof Error\<close> is evaluated only when the first condition is false. Nothing
  in the block catches what these operations throw.
\<close>

definition errorMessage :: "jsval \<Rightarrow> jsval comp" where
  "errorMessage error =
     (let errorMessage = JString (lit ''login failed. please try again.'') in
      bind (if ToBoolean error \<and> js_typeof error = lit ''object''
            then lift (js_in (lit ''response'') error) else ret False) (\<lambda>carries.
      if carries
      then
        bind (lift (js_get error (lit ''response''))) (\<lambda>response.
        bind (lift (js_get_opt response (lit ''data''))) (\<lambda>data.
        bind (lift (js_get_opt data (lit ''error''))) (\<lambda>err.
        ret (if ToBoolean err then err else errorMessage))))
      else
        bind (lift (js_instanceof_Error error)) (\<lambda>is_error.
        if is_error
        then lift (js_get error (lit ''message''))
        else ret errorMessage)))"

text \<open>
  Lines 24 to 71. The handler closes over the \<open>email\<close> and \<open>password\<close> of the render it
  belongs to, which are those of the state it starts in.
\<close>

definition handleSubmit :: "auth_context \<Rightarrow> unit comp" where
  "handleSubmit auth = (\<lambda>s.
     seq (perform PreventDefault)
       (if \<not> ToBoolean (JString (trim (email s))) then
          toast \<lparr>title = lit ''error'', description = JString (lit ''email is required''),
                 variant = Some (lit ''destructive'')\<rparr>
        else if \<not> ToBoolean (JString (trim (password s))) then
          toast \<lparr>title = lit ''error'', description = JString (lit ''password is required''),
                 variant = Some (lit ''destructive'')\<rparr>
        else
          seq (setIsLoading True)
            (try_finally
               (try_catch
                  (seq (await_login auth (email s) (password s))
                     (toast \<lparr>title = lit ''success'',
                             description = JString (lit ''login successful''),
                             variant = None\<rparr>))
                  (\<lambda>error.
                     bind (errorMessage error) (\<lambda>msg.
                     toast \<lparr>title = lit ''login failed'', description = msg,
                            variant = Some (lit ''destructive'')\<rparr>)))
               (setIsLoading False)))
       s)"

subsection \<open>\<open>handleGoogleLogin\<close>\<close>

text \<open>Lines 73 to 88. There is no \<open>finally\<close>: the flag is cleared in the \<open>catch\<close> block only.\<close>

definition handleGoogleLogin :: "auth_context \<Rightarrow> unit comp" where
  "handleGoogleLogin auth =
     seq (setIsGoogleLoading True)
       (try_catch
          (call_loginWithGoogle auth)
          (\<lambda>error.
             seq (perform (ConsoleError [JString (lit ''Google login failed:''), error]))
            (seq (toast \<lparr>title = lit ''error'',
                          description =
                            JString (lit ''failed to start google login. please try again.''),
                          variant = Some (lit ''destructive'')\<rparr>)
                 (setIsGoogleLoading False))))"

subsection \<open>The rendered form\<close>

text \<open>
  Lines 90 to 192, as far as they depend on the state: the two buttons (lines 105 to 131
  and 173 to 179) and the values of the two inputs.
\<close>

record view =
  google_disabled :: bool
  google_label :: jsstring
  email_value :: jsstring
  password_value :: jsstring
  submit_disabled :: bool
  submit_label :: jsstring

definition LoginPage :: "page \<Rightarrow> view" where
  "LoginPage s =
     \<lparr>google_disabled = (isGoogleLoading s \<or> isLoading s),
      google_label = (if isGoogleLoading s then lit ''connecting...'' else lit ''continue with google''),
      email_value = email s,
      password_value = password s,
      submit_disabled = (isLoading s \<or> isGoogleLoading s),
      submit_label = (if isLoading s then lit ''logging in...'' else lit ''login'')\<rparr>"

text \<open>
  What the browser does with the two user actions that start a handler. This is the
  document object model's rule, not code of the page: a disabled button fires no
  \<open>click\<close>, and a form whose default button is disabled is not submitted (by a click
  or by the Enter key); an enabled submit button submits the form only if the form
  passes the browser's own constraint validation (both inputs are \<open>required\<close>, the
  first has \<open>type="email"\<close>), whose verdict is the parameter \<open>valid\<close>.
\<close>

datatype user_action = ClickGoogle | Submit

definition dispatch :: "auth_context \<Rightarrow> bool \<Rightarrow> user_action \<Rightarrow> unit comp" where
  "dispatch auth valid a = (\<lambda>s.
     case a of
       ClickGoogle \<Rightarrow>
         (if google_disabled (LoginPage s) then ret () s else handleGoogleLogin auth s)
     | Submit \<Rightarrow>
         (if submit_disabled (LoginPage s) \<or> \<not> valid then ret () s else handleSubmit auth s))"

subsection \<open>Observations on a run\<close>

definition completion_of :: "'a completion \<times> page \<times> effect list \<Rightarrow> 'a completion" where
  "completion_of r = fst r"

definition page_after :: "'a completion \<times> page \<times> effect list \<Rightarrow> page" where
  "page_after r = fst (snd r)"

definition effects_of :: "'a completion \<times> page \<times> effect list \<Rightarrow> effect list" where
  "effects_of r = snd (snd r)"

fun toasts :: "effect list \<Rightarrow> notification list" where
  "toasts [] = []"
| "toasts (Toast n # es) = n # toasts es"
| "toasts (e # es) = toasts es"

fun login_calls :: "effect list \<Rightarrow> (jsstring \<times> jsstring) list" where
  "login_calls [] = []"
| "login_calls (Login e p # es) = (e, p) # login_calls es"
| "login_calls (e # es) = login_calls es"

fun console_errors :: "effect list \<Rightarrow> jsval list list" where
  "console_errors [] = []"
| "console_errors (ConsoleError vs # es) = vs # console_errors es"
| "console_errors (e # es) = console_errors es"

subsection \<open>The failure description, stated on the shape of the rejection value\<close>

text \<open>
  A read that cannot throw: the value of property \<open>k\<close> of an object, own or inherited,
  and \<open>undefined\<close> for a missing property, for a read that throws and for a value that
  is not an object.
\<close>

fun field :: "jsval \<Rightarrow> jsstring \<Rightarrow> jsval" where
  "field (JObject c ie ps) k =
     (case map_of ps k of
        Some (Slot found (Inr x)) \<Rightarrow> x
      | Some (Slot found (Inl x)) \<Rightarrow> JUndefined
      | None \<Rightarrow> (case inherited ie k of Some x \<Rightarrow> x | None \<Rightarrow> JUndefined))"
| "field v k = JUndefined"

text \<open>An object that is not callable and in which \<open>in\<close> finds \<open>response\<close>.\<close>

definition has_response :: "jsval \<Rightarrow> bool" where
  "has_response error =
     (case error of
        JObject c ie ps \<Rightarrow>
          \<not> c \<and> (case map_of ps (lit ''response'') of
                   Some (Slot found got) \<Rightarrow> found = Inr True
                 | None \<Rightarrow> False)
      | _ \<Rightarrow> False)"

text \<open>An object for which \<open>instanceof Error\<close> answers true.\<close>

definition instanceof_Error :: "jsval \<Rightarrow> bool" where
  "instanceof_Error error \<longleftrightarrow> js_instanceof_Error error = Inr True"

text \<open>
  The value that the first throwing operation of the \<open>catch\<close> block throws, if one
  throws: the \<open>in\<close> test of a non-callable object; behind a \<open>response\<close> that is found,
  the reads of \<open>response\<close>, of its \<open>data\<close> and of the \<open>error\<close> of that; otherwise the
  \<open>instanceof\<close> test and, for an \<open>Error\<close>, the read of \<open>message\<close>.
\<close>

fun thrown :: "jsval + 'a \<Rightarrow> jsval option" where
  "thrown (Inl x) = Some x"
| "thrown (Inr a) = None"

fun first_thrown :: "(jsval + 'a) list \<Rightarrow> jsval option" where
  "first_thrown [] = None"
| "first_thrown (Inl x # rs) = Some x"
| "first_thrown (Inr a # rs) = first_thrown rs"

definition catch_failure :: "jsval \<Rightarrow> jsval option" where
  "catch_failure error =
     (case (if ToBoolean error \<and> js_typeof error = lit ''object''
            then thrown (js_in (lit ''response'') error) else None) of
        Some x \<Rightarrow> Some x
      | None \<Rightarrow>
          if has_response error then
            first_thrown
              [js_get error (lit ''response''),
               js_get_opt (field error (lit ''response'')) (lit ''data''),
               js_get_opt (field (field error (lit ''response'')) (lit ''data''))
                 (lit ''error'')]
          else
            (case js_instanceof_Error error of
               Inl x \<Rightarrow> Some x
             | Inr is_error \<Rightarrow>
                 if is_error then thrown (js_get error (lit ''message'')) else None))"

text \<open>
  The precedence of the failure description as a function of the data: an object with a
  \<open>response\<close> property shows \<open>response.data.error\<close> when that value is truthy and the
  generic text when it is not; any other \<open>Error\<close> shows its \<open>message\<close>; everything
  else shows the generic text.
\<close>

definition shown_description :: "jsval \<Rightarrow> jsval" where
  "shown_description error =
     (if has_response error then
        (let e = field (field (field error (lit ''response'')) (lit ''data'')) (lit ''error'')
         in if ToBoolean e then e else JString (lit ''login failed. please try again.''))
      else if instanceof_Error error then field error (lit ''message'')
      else JString (lit ''login failed. please try again.''))"

text \<open>
  The precedence in the words of the specification: the server-supplied error string if
  the rejection value exposes one, otherwise the error's own message if it has one,
  otherwise the generic text.
\<close>

definition claimed_description :: "jsval \<Rightarrow> jsval" where
  "claimed_description error =
     (case field (field (field error (lit ''response'')) (lit ''data'')) (lit ''error'') of
        JString m \<Rightarrow> JString m
      | _ \<Rightarrow>
          (case field error (lit ''message'') of
             JUndefined \<Rightarrow> JString (lit ''login failed. please try again.'')
           | m \<Rightarrow> m))"

subsection \<open>Concrete collaborators and inputs\<close>

definition filled :: page where
  "filled = \<lparr>email = lit ''a@b.com'', password = lit ''pw'', isLoading = False,
             isGoogleLoading = False\<rparr>"

definition padded :: page where
  "padded = \<lparr>email = lit '' a@b.com '', password = lit '' pw '', isLoading = False,
             isGoogleLoading = False\<rparr>"

definition accepting :: auth_context where
  "accepting = \<lparr>login = (\<lambda>e p. Fulfilled), loginWithGoogle = Returned\<rparr>"

definition rejecting :: "jsval \<Rightarrow> auth_context" where
  "rejecting v = \<lparr>login = (\<lambda>e p. Rejected v), loginWithGoogle = Threw v\<rparr>"

definition pending :: auth_context where
  "pending = \<lparr>login = (\<lambda>e p. Unsettled), loginWithGoogle = Returned\<rparr>"

text \<open>
  An HTTP client's error for a 401 whose body is \<open>{error: "invalid credentials"}\<close>, and
  one for a 500 whose body is \<open>{message: "boom"}\<close>: both are \<open>Error\<close> instances with a
  \<open>message\<close> of their own and a \<open>response\<close>.
\<close>

definition http_401 :: jsval where
  "http_401 =
     JObject False (Inr True)
       [(lit ''message'', data (JString (lit ''Request failed with status code 401''))),
        (lit ''response'',
         data (JObject False (Inr False)
           [(lit ''status'', data (JNumber 401)),
            (lit ''data'',
             data (JObject False (Inr False)
               [(lit ''error'', data (JString (lit ''invalid credentials'')))]))]))]"

definition http_500 :: jsval where
  "http_500 =
     JObject False (Inr True)
       [(lit ''message'', data (JString (lit ''Request failed with status code 500''))),
        (lit ''response'',
         data (JObject False (Inr False)
           [(lit ''status'', data (JNumber 500)),
            (lit ''data'',
             data (JObject False (Inr False)
               [(lit ''message'', data (JString (lit ''boom'')))]))]))]"

definition network_error :: jsval where
  "network_error =
     JObject False (Inr True) [(lit ''message'', data (JString (lit ''Network Error'')))]"

text \<open>
  An \<open>Error\<close> whose \<open>response\<close> is an accessor property with a getter that throws the
  string \<open>boom\<close>.
\<close>

definition guarded_error :: jsval where
  "guarded_error =
     JObject False (Inr True)
       [(lit ''message'', data (JString (lit ''Request failed''))),
        (lit ''response'', throwing_getter (JString (lit ''boom'')))]"

section \<open>Properties\<close>

subsection \<open>Auxiliary facts\<close>

lemma trim_Nil_iff: "trim s = [] \<longleftrightarrow> blank s"
proof -
  have "(\<forall>x\<in>set (dropWhile P xs). P x) \<longleftrightarrow> (\<forall>x\<in>set xs. P x)"
    for P :: "16 word \<Rightarrow> bool" and xs
    by (induction xs) auto
  then show ?thesis
    by (simp add: trim_def blank_def dropWhile_eq_Nil_conv list_all_iff)
qed

lemma proto_no_response: "map_of Error_prototype (lit ''response'') = None"
  by (simp add: Error_prototype_def lit_def)

lemma inherited_no_response: "inherited ie (lit ''response'') = None"
  by (simp add: inherited_def proto_no_response)

lemma js_get_object_cases:
  "(\<exists>x. js_get (JObject c ie ps) k = Inl x) \<or>
   js_get (JObject c ie ps) k = Inr (field (JObject c ie ps) k)"
proof (cases "map_of ps k")
  case None
  then show ?thesis by (simp split: option.splits)
next
  case (Some sl)
  then show ?thesis by (cases sl; cases "case sl of Slot f g \<Rightarrow> g") auto
qed

lemma js_get_opt_cases:
  "(\<exists>x. js_get_opt v k = Inl x) \<or> js_get_opt v k = Inr (field v k)"
proof (cases v)
  case (JObject c ie ps)
  then show ?thesis using js_get_object_cases[of c ie ps k] by (simp add: js_get_opt_def)
qed (simp_all add: js_get_opt_def)

lemma typeof_object:
  "ToBoolean v \<and> js_typeof v = lit ''object'' \<longleftrightarrow> (\<exists>ie ps. v = JObject False ie ps)"
  by (cases v) (simp_all add: lit_def)

lemma bind_ret: "bind (ret a) f = f a"
  by (rule ext) (simp add: bind_def ret_def split: prod.splits)

lemma bind_throw: "bind (throw x) f = throw x"
  by (rule ext) (simp add: bind_def throw_def)

lemma lift_Inr: "lift (Inr a) = ret a"
  by (simp add: lift_def)

lemma lift_Inl: "lift (Inl x) = throw x"
  by (simp add: lift_def)

lemmas monad_simps = bind_ret bind_throw lift_Inr lift_Inl

lemma chain_eq:
  "bind (lift (js_get_opt r D)) (\<lambda>d. bind (lift (js_get_opt d E)) (\<lambda>err. ret (f err))) =
     (case first_thrown [js_get_opt r D, js_get_opt (field r D) E] of
        Some x \<Rightarrow> throw x
      | None \<Rightarrow> ret (f (field (field r D) E)))"
proof -
  consider (t1) x where "js_get_opt r D = Inl x"
    | (t2) x where "js_get_opt r D = Inr (field r D)" "js_get_opt (field r D) E = Inl x"
    | (ok) "js_get_opt r D = Inr (field r D)" "js_get_opt (field r D) E = Inr (field (field r D) E)"
    using js_get_opt_cases[of r D] js_get_opt_cases[of "field r D" E] by blast
  then show ?thesis
    by cases (simp_all add: monad_simps)
qed

lemma errorMessage_response:
  assumes "has_response error"
  shows "errorMessage error =
     (case catch_failure error of
        Some x \<Rightarrow> throw x
      | None \<Rightarrow> ret (shown_description error))"
proof -
  from assms obtain ie ps got where e: "error = JObject False ie ps"
    and m: "map_of ps (lit ''response'') = Some (Slot (Inr True) got)"
    by (auto simp: has_response_def split: jsval.splits option.splits slot.splits)
  have guard: "ToBoolean error \<and> js_typeof error = lit ''object''"
    by (simp add: e)
  have inr: "js_in (lit ''response'') error = Inr True"
    by (simp add: e m)
  show ?thesis
  proof (cases got)
    case (Inl x)
    then have g: "js_get error (lit ''response'') = Inl x" by (simp add: e m)
    show ?thesis
      by (simp add: errorMessage_def catch_failure_def guard inr g assms monad_simps)
  next
    case (Inr r)
    then have g: "js_get error (lit ''response'') = Inr r" by (simp add: e m)
    have f: "field error (lit ''response'') = r" by (simp add: e m Inr)
    show ?thesis
      by (simp add: errorMessage_def catch_failure_def shown_description_def Let_def
          guard inr g f assms monad_simps chain_eq split: option.splits)
  qed
qed

lemma errorMessage_other:
  assumes "\<not> has_response error"
    and "\<not> (ToBoolean error \<and> js_typeof error = lit ''object'') \<or>
         js_in (lit ''response'') error = Inr False"
  shows "errorMessage error =
     (case catch_failure error of
        Some x \<Rightarrow> throw x
      | None \<Rightarrow> ret (shown_description error))"
proof -
  have carries: "(if ToBoolean error \<and> js_typeof error = lit ''object''
            then lift (js_in (lit ''response'') error) else ret False) = ret False"
    using assms(2) by (auto simp: monad_simps)
  have nothrow: "(if ToBoolean error \<and> js_typeof error = lit ''object''
            then thrown (js_in (lit ''response'') error) else None) = None"
    using assms(2) by auto
  show ?thesis
  proof (cases "js_instanceof_Error error")
    case (Inl x)
    then show ?thesis
      by (simp add: errorMessage_def catch_failure_def carries nothrow assms(1) monad_simps
          del: js_instanceof_Error.simps)
  next
    case (Inr b)
    show ?thesis
    proof (cases b)
      case False
      with Inr show ?thesis
        by (simp add: errorMessage_def catch_failure_def shown_description_def
            instanceof_Error_def carries nothrow assms(1) monad_simps
            del: js_instanceof_Error.simps)
    next
      case True
      with Inr obtain c ie ps where e: "error = JObject c ie ps"
        by (cases error) auto
      have "(\<exists>x. js_get error (lit ''message'') = Inl x) \<or>
            js_get error (lit ''message'') = Inr (field error (lit ''message''))"
        unfolding e by (rule js_get_object_cases)
      with True Inr show ?thesis
        by (auto simp: errorMessage_def catch_failure_def shown_description_def
            instanceof_Error_def carries nothrow assms(1) monad_simps
            simp del: js_instanceof_Error.simps js_get.simps field.simps)
    qed
  qed
qed

lemma errorMessage_in_throws:
  assumes "ToBoolean error \<and> js_typeof error = lit ''object''"
    and "js_in (lit ''response'') error = Inl x"
  shows "errorMessage error =
     (case catch_failure error of
        Some x \<Rightarrow> throw x
      | None \<Rightarrow> ret (shown_description error))"
  using assms by (simp add: errorMessage_def catch_failure_def monad_simps)

lemma has_response_iff:
  "has_response error \<longleftrightarrow>
     ToBoolean error \<and> js_typeof error = lit ''object'' \<and>
     js_in (lit ''response'') error = Inr True"
proof (cases error)
  case (JObject c ie ps)
  show ?thesis
  proof (cases "map_of ps (lit ''response'')")
    case None
    then show ?thesis
      by (simp add: JObject has_response_def inherited_no_response)
  next
    case (Some sl)
    then show ?thesis
      by (cases sl) (simp add: JObject has_response_def lit_def[of "''object''"] lit_def[of "''function''"])
  qed
qed (simp_all add: has_response_def)

text \<open>
  The \<open>catch\<close> block ends with the description, or with what its first throwing
  operation throws.
\<close>

lemma errorMessage_eq:
  "errorMessage error =
     (case catch_failure error of
        Some x \<Rightarrow> throw x
      | None \<Rightarrow> ret (shown_description error))"
proof (cases "has_response error")
  case True
  then show ?thesis by (rule errorMessage_response)
next
  case False
  show ?thesis
  proof (cases "ToBoolean error \<and> js_typeof error = lit ''object''")
    case g: True
    show ?thesis
    proof (cases "js_in (lit ''response'') error")
      case (Inl x)
      with g show ?thesis by (rule errorMessage_in_throws)
    next
      case (Inr b)
      with False g have "js_in (lit ''response'') error = Inr False"
        using has_response_iff[of error] by (cases b) auto
      with False show ?thesis by (intro errorMessage_other) auto
    qed
  next
    case False
    with \<open>\<not> has_response error\<close> show ?thesis by (intro errorMessage_other) auto
  qed
qed

lemmas comp_defs =
  seq_def bind_def perform_def toast_def setIsLoading_def setIsGoogleLoading_def
  try_finally_def try_catch_def await_login_def call_loginWithGoogle_def
  ret_def throw_def suspend_def

lemmas run_defs = completion_of_def page_after_def effects_of_def

lemma handleSubmit_blank_email:
  "blank (email s) \<Longrightarrow>
   handleSubmit auth s =
     (Normal (), s,
      [PreventDefault,
       Toast \<lparr>title = lit ''error'', description = JString (lit ''email is required''),
              variant = Some (lit ''destructive'')\<rparr>])"
  by (simp add: handleSubmit_def trim_Nil_iff comp_defs)

lemma handleSubmit_blank_password:
  "\<not> blank (email s) \<Longrightarrow> blank (password s) \<Longrightarrow>
   handleSubmit auth s =
     (Normal (), s,
      [PreventDefault,
       Toast \<lparr>title = lit ''error'', description = JString (lit ''password is required''),
              variant = Some (lit ''destructive'')\<rparr>])"
  by (simp add: handleSubmit_def trim_Nil_iff comp_defs)

lemma handleSubmit_valid:
  "\<not> blank (email s) \<Longrightarrow> \<not> blank (password s) \<Longrightarrow>
   handleSubmit auth s =
     (case login auth (email s) (password s) of
        Fulfilled \<Rightarrow>
          (Normal (), s\<lparr>isLoading := False\<rparr>,
           [PreventDefault, SetIsLoading True, Login (email s) (password s),
            Toast \<lparr>title = lit ''success'', description = JString (lit ''login successful''),
                   variant = None\<rparr>,
            SetIsLoading False])
      | Rejected error \<Rightarrow>
          (case catch_failure error of
             None \<Rightarrow>
               (Normal (), s\<lparr>isLoading := False\<rparr>,
                [PreventDefault, SetIsLoading True, Login (email s) (password s),
                 Toast \<lparr>title = lit ''login failed'', description = shown_description error,
                        variant = Some (lit ''destructive'')\<rparr>,
                 SetIsLoading False])
           | Some x \<Rightarrow>
               (Throw x, s\<lparr>isLoading := False\<rparr>,
                [PreventDefault, SetIsLoading True, Login (email s) (password s),
                 SetIsLoading False]))
      | Unsettled \<Rightarrow>
          (Suspended, s\<lparr>isLoading := True\<rparr>,
           [PreventDefault, SetIsLoading True, Login (email s) (password s)]))"
  by (simp add: handleSubmit_def trim_Nil_iff errorMessage_eq comp_defs
      split: settlement.splits option.splits)

lemma handleGoogleLogin_eq:
  "handleGoogleLogin auth s =
     (case loginWithGoogle auth of
        Returned \<Rightarrow>
          (Normal (), s\<lparr>isGoogleLoading := True\<rparr>, [SetIsGoogleLoading True, LoginWithGoogle])
      | Threw error \<Rightarrow>
          (Normal (), s\<lparr>isGoogleLoading := False\<rparr>,
           [SetIsGoogleLoading True, LoginWithGoogle,
            ConsoleError [JString (lit ''Google login failed:''), error],
            Toast \<lparr>title = lit ''error'',
                   description =
                     JString (lit ''failed to start google login. please try again.''),
                   variant = Some (lit ''destructive'')\<rparr>,
            SetIsGoogleLoading False]))"
  by (simp add: handleGoogleLogin_def comp_defs split: invocation.splits)

text \<open>Blankness of the concrete inputs.\<close>

lemma filled_not_blank: "\<not> blank (email filled) \<and> \<not> blank (password filled)"
  by (simp add: filled_def blank_def lit_def StrWhiteSpaceChar_def)

lemma padded_not_blank: "\<not> blank (email padded) \<and> \<not> blank (password padded)"
  by (simp add: padded_def blank_def lit_def StrWhiteSpaceChar_def)

text \<open>The descriptions derived from the concrete rejection values.\<close>

lemmas value_defs =
  shown_description_def catch_failure_def has_response_def instanceof_Error_def
  js_get_opt_def inherited_def Error_prototype_def data_def throwing_getter_def lit_def

lemma shown_http_401:
  "catch_failure http_401 = None \<and>
   shown_description http_401 = JString (lit ''invalid credentials'')"
  by (simp add: http_401_def value_defs)

lemma shown_http_500:
  "catch_failure http_500 = None \<and>
   shown_description http_500 = JString (lit ''login failed. please try again.'')"
  by (simp add: http_500_def value_defs)

lemma shown_network_error:
  "catch_failure network_error = None \<and>
   shown_description network_error = JString (lit ''Network Error'')"
  by (simp add: network_error_def value_defs)

lemma claimed_http_500:
  "claimed_description http_500 = JString (lit ''Request failed with status code 500'')"
  by (simp add: claimed_description_def http_500_def value_defs)

lemma failure_guarded_error: "catch_failure guarded_error = Some (JString (lit ''boom''))"
  by (simp add: guarded_error_def value_defs)

subsection \<open>The description of a failed login\<close>

text \<open>
  C1, as the code has it. For every rejected login the one notification shown is the
  destructive \<open>login failed\<close> notification, and its description follows the shape of the
  rejection value: for an object that has a \<open>response\<close> property it is
  \<open>response.data.error\<close> when that value is truthy (a non-empty server-supplied string
  is shown as it is) and the generic text otherwise, whatever the error's own message;
  for any other \<open>Error\<close> instance it is the error's \<open>message\<close>; for every other value
  it is the generic text. When an operation of the \<open>catch\<close> block on the rejection
  value throws, no description is chosen and no notification is shown.
\<close>

theorem rejected_login_description:
  assumes "\<not> blank (email s)" and "\<not> blank (password s)"
    and "login auth (email s) (password s) = Rejected error"
  shows "toasts (effects_of (handleSubmit auth s)) =
           (case catch_failure error of
              None \<Rightarrow>
                [\<lparr>title = lit ''login failed'', description = shown_description error,
                  variant = Some (lit ''destructive'')\<rparr>]
            | Some x \<Rightarrow> [])"
  using assms by (simp add: handleSubmit_valid run_defs split: option.splits)

text \<open>The specification's example: the server's \<open>invalid credentials\<close> is shown as it is.\<close>

theorem rejected_login_description_witness:
  "\<not> blank (email filled) \<and> \<not> blank (password filled) \<and>
   login (rejecting http_401) (email filled) (password filled) = Rejected http_401 \<and>
   toasts (effects_of (handleSubmit (rejecting http_401) filled)) =
     [\<lparr>title = lit ''login failed'', description = JString (lit ''invalid credentials''),
       variant = Some (lit ''destructive'')\<rparr>]"
  using rejected_login_description [of filled "rejecting http_401" http_401] filled_not_blank
  by (simp add: rejecting_def shown_http_401)

text \<open>
  The precedence as C1 words it fails on an error that has a \<open>response\<close> without a
  server error string: the error's own message is \<open>Request failed with status code 500\<close>,
  and the generic text is shown instead.
\<close>

theorem claimed_precedence_counterexample:
  "map description (toasts (effects_of (handleSubmit (rejecting http_500) filled))) =
     [JString (lit ''login failed. please try again.'')] \<and>
   claimed_description http_500 = JString (lit ''Request failed with status code 500'') \<and>
   map description (toasts (effects_of (handleSubmit (rejecting http_500) filled))) \<noteq>
     [claimed_description http_500]"
  using filled_not_blank
  by (simp add: handleSubmit_valid run_defs rejecting_def shown_http_500 claimed_http_500
      lit_def)

subsection \<open>Field validation\<close>

text \<open>
  C2. When the email field is empty or whitespace-only, \<open>handleSubmit\<close> does not call
  \<open>login\<close> and shows exactly one notification, the destructive
  \<open>{title: 'error', description: 'email is required'}\<close>.
\<close>

theorem blank_email_stops_submit:
  assumes "blank (email s)"
  shows "login_calls (effects_of (handleSubmit auth s)) = [] \<and>
         toasts (effects_of (handleSubmit auth s)) =
           [\<lparr>title = lit ''error'', description = JString (lit ''email is required''),
             variant = Some (lit ''destructive'')\<rparr>]"
  using assms by (simp add: handleSubmit_blank_email run_defs)

text \<open>The specification's example (empty email, password \<open>x\<close>) and a whitespace-only email.\<close>

theorem blank_email_stops_submit_witness:
  "blank (email (filled\<lparr>email := [], password := lit ''x''\<rparr>)) \<and>
   blank (email (filled\<lparr>email := lit ''  ''\<rparr>)) \<and>
   login_calls
     (effects_of (handleSubmit accepting (filled\<lparr>email := [], password := lit ''x''\<rparr>))) = [] \<and>
   toasts
     (effects_of (handleSubmit accepting (filled\<lparr>email := [], password := lit ''x''\<rparr>))) =
     [\<lparr>title = lit ''error'', description = JString (lit ''email is required''),
       variant = Some (lit ''destructive'')\<rparr>] \<and>
   login_calls (effects_of (handleSubmit accepting (filled\<lparr>email := lit ''  ''\<rparr>))) = []"
  using blank_email_stops_submit [of "filled\<lparr>email := [], password := lit ''x''\<rparr>" accepting]
    blank_email_stops_submit [of "filled\<lparr>email := lit ''  ''\<rparr>" accepting]
  by (simp add: blank_def lit_def StrWhiteSpaceChar_def)

text \<open>
  C3. When the email field is not blank and the password field is empty or
  whitespace-only, \<open>handleSubmit\<close> does not call \<open>login\<close> and shows the destructive
  notification \<open>{title: 'error', description: 'password is required'}\<close>.
\<close>

theorem blank_password_stops_submit:
  assumes "\<not> blank (email s)" and "blank (password s)"
  shows "login_calls (effects_of (handleSubmit auth s)) = [] \<and>
         toasts (effects_of (handleSubmit auth s)) =
           [\<lparr>title = lit ''error'', description = JString (lit ''password is required''),
             variant = Some (lit ''destructive'')\<rparr>]"
  using assms by (simp add: handleSubmit_blank_password run_defs)

theorem blank_password_stops_submit_witness:
  "\<not> blank (email (filled\<lparr>password := lit '' ''\<rparr>)) \<and>
   blank (password (filled\<lparr>password := lit '' ''\<rparr>)) \<and>
   login_calls (effects_of (handleSubmit accepting (filled\<lparr>password := lit '' ''\<rparr>))) = [] \<and>
   toasts (effects_of (handleSubmit accepting (filled\<lparr>password := lit '' ''\<rparr>))) =
     [\<lparr>title = lit ''error'', description = JString (lit ''password is required''),
       variant = Some (lit ''destructive'')\<rparr>]"
  using blank_password_stops_submit [of "filled\<lparr>password := lit '' ''\<rparr>" accepting]
    filled_not_blank
  by (simp add: blank_def lit_def StrWhiteSpaceChar_def)

text \<open>
  C9. When both fields are blank, \<open>handleSubmit\<close> shows exactly one notification, the
  \<open>email is required\<close> one: the handler ends after the email check, and its whole trace
  is \<open>preventDefault\<close> and that one toast.
\<close>

theorem both_blank_one_notification:
  assumes "blank (email s)" and "blank (password s)"
  shows "toasts (effects_of (handleSubmit auth s)) =
           [\<lparr>title = lit ''error'', description = JString (lit ''email is required''),
             variant = Some (lit ''destructive'')\<rparr>] \<and>
         effects_of (handleSubmit auth s) =
           [PreventDefault,
            Toast \<lparr>title = lit ''error'', description = JString (lit ''email is required''),
                   variant = Some (lit ''destructive'')\<rparr>]"
  using assms by (simp add: handleSubmit_blank_email run_defs)

theorem both_blank_one_notification_witness:
  "blank (email (filled\<lparr>email := lit '' '', password := []\<rparr>)) \<and>
   blank (password (filled\<lparr>email := lit '' '', password := []\<rparr>)) \<and>
   toasts (effects_of (handleSubmit accepting (filled\<lparr>email := lit '' '', password := []\<rparr>))) =
     [\<lparr>title = lit ''error'', description = JString (lit ''email is required''),
       variant = Some (lit ''destructive'')\<rparr>]"
  using both_blank_one_notification
    [of "filled\<lparr>email := lit '' '', password := []\<rparr>" accepting]
  by (simp add: blank_def lit_def StrWhiteSpaceChar_def)

subsection \<open>A submission that passes validation\<close>

text \<open>
  C4. When both fields are non-blank and \<open>login\<close> resolves, \<open>handleSubmit\<close> shows the
  notification \<open>{title: 'success', description: 'login successful'}\<close>, completes, and
  leaves \<open>isLoading\<close> false.
\<close>

theorem successful_login:
  assumes "\<not> blank (email s)" and "\<not> blank (password s)"
    and "login auth (email s) (password s) = Fulfilled"
  shows "toasts (effects_of (handleSubmit auth s)) =
           [\<lparr>title = lit ''success'', description = JString (lit ''login successful''),
             variant = None\<rparr>] \<and>
         completion_of (handleSubmit auth s) = Normal () \<and>
         isLoading (page_after (handleSubmit auth s)) = False"
  using assms by (simp add: handleSubmit_valid run_defs)

text \<open>The specification's example: \<open>a@b.com\<close>, \<open>pw\<close>, the service resolves.\<close>

theorem successful_login_witness:
  "\<not> blank (email filled) \<and> \<not> blank (password filled) \<and>
   login accepting (email filled) (password filled) = Fulfilled \<and>
   toasts (effects_of (handleSubmit accepting filled)) =
     [\<lparr>title = lit ''success'', description = JString (lit ''login successful''),
       variant = None\<rparr>] \<and>
   completion_of (handleSubmit accepting filled) = Normal () \<and>
   isLoading (page_after (handleSubmit accepting filled)) = False"
  using successful_login [of filled accepting] filled_not_blank
  by (simp add: accepting_def)

text \<open>
  C5. When both fields are non-blank, \<open>handleSubmit\<close> sets \<open>isLoading\<close> to true and
  then calls \<open>login\<close>, whatever \<open>login\<close> does, and it clears the flag only after the
  attempt. When \<open>login\<close> resolves, the flag is cleared after the success notification;
  when \<open>login\<close> rejects, it is cleared after the \<open>catch\<close> block, which has shown the
  failure notification or has thrown; in both cases clearing is the last effect and the
  flag is false afterwards. While \<open>login\<close> has not settled, the handler is suspended
  right after the call, and the flag is still true.
\<close>

theorem loading_flag_brackets_login:
  assumes "\<not> blank (email s)" and "\<not> blank (password s)"
  shows "(case login auth (email s) (password s) of
            Fulfilled \<Rightarrow>
              effects_of (handleSubmit auth s) =
                [PreventDefault, SetIsLoading True, Login (email s) (password s),
                 Toast \<lparr>title = lit ''success'',
                        description = JString (lit ''login successful''), variant = None\<rparr>,
                 SetIsLoading False] \<and>
              isLoading (page_after (handleSubmit auth s)) = False
          | Rejected error \<Rightarrow>
              effects_of (handleSubmit auth s) =
                [PreventDefault, SetIsLoading True, Login (email s) (password s)] @
                (case catch_failure error of
                   None \<Rightarrow>
                     [Toast \<lparr>title = lit ''login failed'',
                             description = shown_description error,
                             variant = Some (lit ''destructive'')\<rparr>]
                 | Some x \<Rightarrow> []) @
                [SetIsLoading False] \<and>
              isLoading (page_after (handleSubmit auth s)) = False
          | Unsettled \<Rightarrow>
              effects_of (handleSubmit auth s) =
                [PreventDefault, SetIsLoading True, Login (email s) (password s)] \<and>
              completion_of (handleSubmit auth s) = Suspended \<and>
              isLoading (page_after (handleSubmit auth s)) = True)"
  using assms
  by (simp add: handleSubmit_valid run_defs split: settlement.splits option.splits)

text \<open>
  The same fields with a \<open>login\<close> that resolves, one that rejects with a network error,
  and one that has not settled.
\<close>

theorem loading_flag_brackets_login_witness:
  "(\<not> blank (email filled) \<and> \<not> blank (password filled)) \<and>
   effects_of (handleSubmit accepting filled) =
     [PreventDefault, SetIsLoading True, Login (lit ''a@b.com'') (lit ''pw''),
      Toast \<lparr>title = lit ''success'', description = JString (lit ''login successful''),
             variant = None\<rparr>,
      SetIsLoading False] \<and>
   isLoading (page_after (handleSubmit accepting filled)) = False \<and>
   effects_of (handleSubmit (rejecting network_error) filled) =
     [PreventDefault, SetIsLoading True, Login (lit ''a@b.com'') (lit ''pw''),
      Toast \<lparr>title = lit ''login failed'', description = JString (lit ''Network Error''),
             variant = Some (lit ''destructive'')\<rparr>,
      SetIsLoading False] \<and>
   isLoading (page_after (handleSubmit (rejecting network_error) filled)) = False \<and>
   effects_of (handleSubmit pending filled) =
     [PreventDefault, SetIsLoading True, Login (lit ''a@b.com'') (lit ''pw'')] \<and>
   completion_of (handleSubmit pending filled) = Suspended \<and>
   isLoading (page_after (handleSubmit pending filled)) = True"
  using loading_flag_brackets_login [of filled accepting]
    loading_flag_brackets_login [of filled "rejecting network_error"]
    loading_flag_brackets_login [of filled pending] filled_not_blank
  by (simp add: accepting_def rejecting_def pending_def filled_def shown_network_error)

text \<open>
  C10. When both fields are non-blank, \<open>login\<close> is called once, with the email and the
  password as they stand in the fields: trimming decides blankness only.
\<close>

theorem login_receives_untrimmed_fields:
  assumes "\<not> blank (email s)" and "\<not> blank (password s)"
  shows "login_calls (effects_of (handleSubmit auth s)) = [(email s, password s)]"
  using assms
  by (cases "login auth (email s) (password s)")
    (simp_all add: handleSubmit_valid run_defs split: option.splits)

text \<open>Fields with a space on either side reach \<open>login\<close> with their spaces.\<close>

theorem login_receives_untrimmed_fields_witness:
  "\<not> blank (email padded) \<and> \<not> blank (password padded) \<and>
   trim (email padded) \<noteq> email padded \<and> trim (password padded) \<noteq> password padded \<and>
   login_calls (effects_of (handleSubmit accepting padded)) =
     [(lit '' a@b.com '', lit '' pw '')]"
  using login_receives_untrimmed_fields [of padded accepting] padded_not_blank
  by (simp add: padded_def trim_def lit_def StrWhiteSpaceChar_def)

subsection \<open>Google sign-in\<close>

text \<open>
  C6. \<open>handleGoogleLogin\<close> sets \<open>isGoogleLoading\<close> to true first, before it calls
  \<open>loginWithGoogle\<close>. If the call throws, the destructive notification
  \<open>{title: 'error', description: 'failed to start google login. please try again.'}\<close> is
  shown and the flag is cleared to false as the last effect; if the call returns, nothing
  else happens and the flag is still true when the handler has returned.
\<close>

theorem google_login_flag:
  "take 2 (effects_of (handleGoogleLogin auth s)) = [SetIsGoogleLoading True, LoginWithGoogle] \<and>
   (case loginWithGoogle auth of
      Threw error \<Rightarrow>
        toasts (effects_of (handleGoogleLogin auth s)) =
          [\<lparr>title = lit ''error'',
            description = JString (lit ''failed to start google login. please try again.''),
            variant = Some (lit ''destructive'')\<rparr>] \<and>
        last (effects_of (handleGoogleLogin auth s)) = SetIsGoogleLoading False \<and>
        isGoogleLoading (page_after (handleGoogleLogin auth s)) = False
    | Returned \<Rightarrow>
        effects_of (handleGoogleLogin auth s) = [SetIsGoogleLoading True, LoginWithGoogle] \<and>
        isGoogleLoading (page_after (handleGoogleLogin auth s)) = True)"
  by (simp add: handleGoogleLogin_eq run_defs split: invocation.splits)

theorem google_login_flag_witness:
  "loginWithGoogle (rejecting network_error) = Threw network_error \<and>
   loginWithGoogle accepting = Returned \<and>
   take 2 (effects_of (handleGoogleLogin (rejecting network_error) initial_page)) =
     [SetIsGoogleLoading True, LoginWithGoogle] \<and>
   toasts (effects_of (handleGoogleLogin (rejecting network_error) initial_page)) =
     [\<lparr>title = lit ''error'',
       description = JString (lit ''failed to start google login. please try again.''),
       variant = Some (lit ''destructive'')\<rparr>] \<and>
   isGoogleLoading (page_after (handleGoogleLogin (rejecting network_error) initial_page)) = False \<and>
   effects_of (handleGoogleLogin accepting initial_page) =
     [SetIsGoogleLoading True, LoginWithGoogle] \<and>
   isGoogleLoading (page_after (handleGoogleLogin accepting initial_page)) = True"
  using google_login_flag [of "rejecting network_error" initial_page]
    google_login_flag [of accepting initial_page]
  by (simp add: rejecting_def accepting_def)

subsection \<open>Disabled controls\<close>

text \<open>
  C7. In every state in which \<open>isLoading\<close> or \<open>isGoogleLoading\<close> is true, the rendered
  submit button and the rendered Google button are both disabled, so that neither user
  action starts a handler: it leaves the state as it is and has no effect. A submission
  that is in flight, suspended at its \<open>await\<close>, is in such a state, since \<open>isLoading\<close> is
  true there.
\<close>

theorem controls_disabled_while_loading:
  "(isLoading s \<or> isGoogleLoading s \<longrightarrow>
      submit_disabled (LoginPage s) \<and> google_disabled (LoginPage s) \<and>
      dispatch auth valid Submit s = (Normal (), s, []) \<and>
      dispatch auth valid ClickGoogle s = (Normal (), s, [])) \<and>
   (completion_of (handleSubmit auth' s') = Suspended \<longrightarrow>
      isLoading (page_after (handleSubmit auth' s')))"
proof
  show "isLoading s \<or> isGoogleLoading s \<longrightarrow>
      submit_disabled (LoginPage s) \<and> google_disabled (LoginPage s) \<and>
      dispatch auth valid Submit s = (Normal (), s, []) \<and>
      dispatch auth valid ClickGoogle s = (Normal (), s, [])"
    by (auto simp: LoginPage_def dispatch_def ret_def)
next
  consider (be) "blank (email s')" | (bp) "\<not> blank (email s')" "blank (password s')"
    | (ok) "\<not> blank (email s')" "\<not> blank (password s')"
    by blast
  then show "completion_of (handleSubmit auth' s') = Suspended \<longrightarrow>
      isLoading (page_after (handleSubmit auth' s'))"
  proof cases
    case be
    then show ?thesis by (simp add: handleSubmit_blank_email run_defs)
  next
    case bp
    then show ?thesis by (simp add: handleSubmit_blank_password run_defs)
  next
    case ok
    then show ?thesis
      by (cases "login auth' (email s') (password s')")
        (simp_all add: handleSubmit_valid run_defs split: option.splits)
  qed
qed

text \<open>
  A submission whose \<open>login\<close> has not settled: in the state it is suspended in, both
  controls are disabled and both user actions do nothing.
\<close>

theorem controls_disabled_while_loading_witness:
  "completion_of (handleSubmit pending filled) = Suspended \<and>
   isLoading (page_after (handleSubmit pending filled)) \<and>
   submit_disabled (LoginPage (page_after (handleSubmit pending filled))) \<and>
   google_disabled (LoginPage (page_after (handleSubmit pending filled))) \<and>
   dispatch accepting True Submit (page_after (handleSubmit pending filled)) =
     (Normal (), page_after (handleSubmit pending filled), []) \<and>
   dispatch accepting True ClickGoogle (page_after (handleSubmit pending filled)) =
     (Normal (), page_after (handleSubmit pending filled), [])"
proof -
  have run: "handleSubmit pending filled =
      (Suspended, filled\<lparr>isLoading := True\<rparr>,
       [PreventDefault, SetIsLoading True, Login (email filled) (password filled)])"
    using filled_not_blank by (simp add: handleSubmit_valid pending_def)
  then have "completion_of (handleSubmit pending filled) = Suspended"
    by (simp add: run_defs)
  then show ?thesis
    using controls_disabled_while_loading
      [of "page_after (handleSubmit pending filled)" accepting True pending filled]
    by simp
qed

subsection \<open>Exceptions that leave a handler\<close>

text \<open>
  C8, as the code has it. \<open>handleGoogleLogin\<close> never ends by throwing. \<open>handleSubmit\<close>
  ends by throwing in one case only: the fields pass validation, \<open>login\<close> rejects, and
  an operation of the \<open>catch\<close> block on the rejection value (the \<open>in\<close> test, the
  \<open>instanceof\<close> test, or a read of \<open>response\<close>, \<open>data\<close>, \<open>error\<close> or \<open>message\<close>)
  itself throws; the handler then ends with that exception, with no notification and
  with \<open>isLoading\<close> cleared. In every other case an error is caught and surfaced only as
  a notification: \<open>handleSubmit\<close> writes nothing to the console, calls \<open>login\<close> at most
  once and ends a rejected login normally with the one \<open>login failed\<close> notification; a
  throwing \<open>loginWithGoogle\<close> ends \<open>handleGoogleLogin\<close> normally with one \<open>error\<close>
  notification and one \<open>console.error\<close> of the caught value.
\<close>

theorem exceptions_leave_only_from_catch_block:
  "(\<forall>y. completion_of (handleGoogleLogin auth s) \<noteq> Throw y) \<and>
   (completion_of (handleSubmit auth s) = Throw x \<longleftrightarrow>
      \<not> blank (email s) \<and> \<not> blank (password s) \<and>
      (\<exists>error. login auth (email s) (password s) = Rejected error \<and>
         catch_failure error = Some x)) \<and>
   console_errors (effects_of (handleSubmit auth s)) = [] \<and>
   length (login_calls (effects_of (handleSubmit auth s))) \<le> 1 \<and>
   (\<forall>error. \<not> blank (email s) \<and> \<not> blank (password s) \<and>
        login auth (email s) (password s) = Rejected error \<and> catch_failure error = None \<longrightarrow>
      completion_of (handleSubmit auth s) = Normal () \<and>
      map title (toasts (effects_of (handleSubmit auth s))) = [lit ''login failed'']) \<and>
   (\<forall>error y. \<not> blank (email s) \<and> \<not> blank (password s) \<and>
        login auth (email s) (password s) = Rejected error \<and> catch_failure error = Some y \<longrightarrow>
      toasts (effects_of (handleSubmit auth s)) = [] \<and>
      isLoading (page_after (handleSubmit auth s)) = False) \<and>
   (\<forall>error. loginWithGoogle auth = Threw error \<longrightarrow>
      completion_of (handleGoogleLogin auth s) = Normal () \<and>
      map title (toasts (effects_of (handleGoogleLogin auth s))) = [lit ''error''] \<and>
      console_errors (effects_of (handleGoogleLogin auth s)) =
        [[JString (lit ''Google login failed:''), error]])"
proof -
  consider (be) "blank (email s)" | (bp) "\<not> blank (email s)" "blank (password s)"
    | (ok) "\<not> blank (email s)" "\<not> blank (password s)"
    by blast
  then have submit: "(completion_of (handleSubmit auth s) = Throw x \<longleftrightarrow>
      \<not> blank (email s) \<and> \<not> blank (password s) \<and>
      (\<exists>error. login auth (email s) (password s) = Rejected error \<and>
         catch_failure error = Some x)) \<and>
      console_errors (effects_of (handleSubmit auth s)) = [] \<and>
      length (login_calls (effects_of (handleSubmit auth s))) \<le> 1"
  proof cases
    case be
    then show ?thesis by (simp add: handleSubmit_blank_email run_defs)
  next
    case bp
    then show ?thesis by (simp add: handleSubmit_blank_password run_defs)
  next
    case ok
    then show ?thesis
      by (cases "login auth (email s) (password s)")
        (auto simp: handleSubmit_valid run_defs split: option.splits)
  qed
  have caught: "\<forall>error. \<not> blank (email s) \<and> \<not> blank (password s) \<and>
        login auth (email s) (password s) = Rejected error \<and> catch_failure error = None \<longrightarrow>
      completion_of (handleSubmit auth s) = Normal () \<and>
      map title (toasts (effects_of (handleSubmit auth s))) = [lit ''login failed'']"
    by (simp add: handleSubmit_valid run_defs)
  have escaped: "\<forall>error y. \<not> blank (email s) \<and> \<not> blank (password s) \<and>
        login auth (email s) (password s) = Rejected error \<and> catch_failure error = Some y \<longrightarrow>
      toasts (effects_of (handleSubmit auth s)) = [] \<and>
      isLoading (page_after (handleSubmit auth s)) = False"
    by (simp add: handleSubmit_valid run_defs)
  have google: "(\<forall>y. completion_of (handleGoogleLogin auth s) \<noteq> Throw y) \<and>
     (\<forall>error. loginWithGoogle auth = Threw error \<longrightarrow>
      completion_of (handleGoogleLogin auth s) = Normal () \<and>
      map title (toasts (effects_of (handleGoogleLogin auth s))) = [lit ''error''] \<and>
      console_errors (effects_of (handleGoogleLogin auth s)) =
        [[JString (lit ''Google login failed:''), error]])"
    by (simp add: handleGoogleLogin_eq run_defs split: invocation.splits)
  from submit caught escaped google show ?thesis by blast
qed

text \<open>
  A login rejected with, and a Google sign-in throwing, the error of a 401: both are
  caught. A login rejected with the error whose \<open>response\<close> getter throws: the exception
  leaves \<open>handleSubmit\<close>.
\<close>

theorem exceptions_leave_only_from_catch_block_witness:
  "(\<not> blank (email filled) \<and> \<not> blank (password filled)) \<and>
   login (rejecting http_401) (email filled) (password filled) = Rejected http_401 \<and>
   catch_failure http_401 = None \<and>
   loginWithGoogle (rejecting http_401) = Threw http_401 \<and>
   completion_of (handleSubmit (rejecting http_401) filled) = Normal () \<and>
   map title (toasts (effects_of (handleSubmit (rejecting http_401) filled))) =
     [lit ''login failed''] \<and>
   console_errors (effects_of (handleSubmit (rejecting http_401) filled)) = [] \<and>
   completion_of (handleGoogleLogin (rejecting http_401) filled) = Normal () \<and>
   map title (toasts (effects_of (handleGoogleLogin (rejecting http_401) filled))) =
     [lit ''error''] \<and>
   console_errors (effects_of (handleGoogleLogin (rejecting http_401) filled)) =
     [[JString (lit ''Google login failed:''), http_401]] \<and>
   login (rejecting guarded_error) (email filled) (password filled) = Rejected guarded_error \<and>
   catch_failure guarded_error = Some (JString (lit ''boom'')) \<and>
   completion_of (handleSubmit (rejecting guarded_error) filled) =
     Throw (JString (lit ''boom'')) \<and>
   isLoading (page_after (handleSubmit (rejecting guarded_error) filled)) = False"
  using exceptions_leave_only_from_catch_block
      [of "rejecting http_401" filled "JString (lit ''boom'')"]
    exceptions_leave_only_from_catch_block
      [of "rejecting guarded_error" filled "JString (lit ''boom'')"]
    filled_not_blank shown_http_401 failure_guarded_error
  by (simp add: rejecting_def)

text \<open>
  C8 as it is worded fails: when \<open>login\<close> rejects with an error whose \<open>response\<close> is an
  accessor with a throwing getter, the read on line 58 throws inside the \<open>catch\<close> block,
  and \<open>handleSubmit\<close> ends with that exception and without a notification.
\<close>

theorem never_propagate_counterexample:
  "completion_of (handleSubmit (rejecting guarded_error) filled) =
     Throw (JString (lit ''boom'')) \<and>
   toasts (effects_of (handleSubmit (rejecting guarded_error) filled)) = []"
  using filled_not_blank
  by (simp add: handleSubmit_valid run_defs rejecting_def failure_guarded_error)

end
